theory Spec2Isabelle
  imports Main
begin

section \<open>The remote command session of \<open>vip wp\<close> (src/bin/vip-wp.js)\<close>

text \<open>
  The program is event driven: a readline interface, the process's standard input, the
  socket of the running command and the two streams layered on it call back into handlers
  that read and write three module variables (\<open>currentJob\<close>, \<open>currentOffset\<close>,
  \<open>commandRunning\<close>) and the variables of the \<open>argv\<close> callback (\<open>countSIGINT\<close>,
  \<open>commandAction\<close>). The embedding is a state record holding these variables, the
  pipes and listeners that the handlers install, and the ordered list of everything
  the program does to the outside (the effects). Each handler is a function from state to
  state, and an event is delivered by \<open>step\<close>.

  The file holds two revisions of the command; the embedding follows the later one, which
  tracks the offset and reconnects.

  Modelling decisions:
  \<^item> a handler runs to its end before the next event is delivered: the \<open>await\<close>s on
    \<open>trackEvent\<close>, \<open>Token.get\<close> and the API are answered at once, the answer of the
    API being part of the event. There are two exceptions, where the code itself makes
    a second handler start while the first is suspended at an \<open>await\<close>: the \<open>SIGINT\<close>
    handler ends the output stream before it awaits, and \<open>readline\<close> hands every line of
    a written text to the \<open>line\<close> handler in one synchronous call. There the second
    handler runs up to its own first \<open>await\<close>, and suspended handlers resume in the order
    in which they were suspended;
  \<^item> a stream of \<open>socket.io-stream\<close> is not half open: \<open>end()\<close> on it ends its readable side
    as well, so its \<open>end\<close> listeners run (once for a stream);
  \<^item> sockets and streams are numbered by a counter as they are created;
  \<^item> an event on an object that carries no listener for it changes nothing;
  \<^item> \<open>process.exit\<close> records the exit status, and a process that has exited takes no
    further step;
  \<^item> terminal colours (\<open>chalk\<close>) are left out of the printed strings; the banner, the
    confirmation prompt and the message of a failed listing are effects that carry the
    values put into their text.
\<close>

subsection \<open>Constants and data\<close>

type_synonym stream_id = nat
type_synonym socket_id = nat

definition NON_TTY_COLUMNS :: nat where
  "NON_TTY_COLUMNS = 100"

definition NON_TTY_ROWS :: nat where
  "NON_TTY_ROWS = 15"

definition cancelCommandChar :: string where
  "cancelCommandChar = [CHR 0x03]"

text \<open>The value of \<open>opts.log\<close>: absent, the boolean \<open>true\<close> (\<open>--log\<close> alone), or a string.\<close>

datatype log_opt = LogUnset | LogTrue | LogGuid string

text \<open>JavaScript truthiness of \<open>opts.log\<close>: the empty string is falsy.\<close>

fun truthy_log :: "log_opt \<Rightarrow> bool" where
  "truthy_log LogUnset = False"
| "truthy_log LogTrue = True"
| "truthy_log (LogGuid g) = (g \<noteq> [])"

text \<open>The value stored as \<open>cliCommand.guid\<close> in log mode (\<open>guid: opts.log\<close>).\<close>

fun log_guid :: "log_opt \<Rightarrow> string" where
  "log_guid (LogGuid g) = g"
| "log_guid LogTrue = ''true''"
| "log_guid LogUnset = []"

text \<open>
  What the \<open>argv\<close> callback receives: \<open>args\<close> (after \<open>requoteArgs\<close>, a \<open>map\<close> that keeps
  the number of arguments), the options, the selected application and environment, and
  the geometry of the terminal (\<open>0\<close> when \<open>process.stdout.columns\<close> is undefined).
\<close>

record opts =
  args :: "string list"
  opt_log :: log_opt
  opt_yes :: bool
  appId :: int
  appName :: string
  orgId :: int
  envId :: int
  envType :: string
  primaryDomain :: string
  stdoutColumns :: nat
  stdoutRows :: nat

text \<open>The object sent with the \<open>cmd\<close> event when a transport is opened.\<close>

record cmd_data =
  cmd_guid :: string
  cmd_inputToken :: "string option"
  cmd_columns :: nat
  cmd_rows :: nat
  cmd_offset :: nat
  cmd_commandAction :: "string option"

text \<open>The nodes of the answer to \<open>COMMANDS_QUERY\<close>.\<close>

record command_node =
  c_guid :: string
  c_command :: string
  c_startedAt :: string

record environment_node =
  e_id :: int
  e_name :: string
  e_commands :: "command_node list"

text \<open>Everything the program does to the outside, in the order it does it.\<close>

datatype effect =
    ConsoleLog "string list"
  | ConsoleError string
  | CommandsFailureLog int string
  | StdoutWrite string
  | WelcomeBanner string string string
  | ConfirmPrompt string string string
  | RlPrompt
  | RlPause
  | RlResume
  | RlClose
  | RlClearLine
  | RlWrite string
  | TrackEvent string
  | RollbarError string
  | RollbarInfo string
  | QueryCommands int
  | MutateTrigger int int string
  | OpenSocket socket_id
  | EmitCmd cmd_data stream_id stream_id socket_id
  | SocketClose socket_id
  | StdinWrite string
  | StreamWrite stream_id string
  | StreamEnd stream_id
  | Uncaught string
  | Exit int

text \<open>\<open>currentJob\<close>: what \<open>launchCommandAndGetStreams\<close> returns.\<close>

record job =
  stdinStream :: stream_id
  stdoutStream :: stream_id
  socket :: socket_id

record state =
  currentJob :: "job option"
  currentOffset :: nat
  commandRunning :: bool
  countSIGINT :: nat
  commandAction :: "string option"
  muted :: bool
  stdinPipes :: "stream_id list"
  stdoutPipes :: "stream_id list"
  dataListeners :: "stream_id list"
  boundStreams :: "stream_id list"
  endedStreams :: "stream_id list"
  reconnectHandlers :: "(socket_id \<times> string \<times> string option) list"
  launchedSockets :: "socket_id list"
  nextId :: nat
  effects :: "effect list"
  exited :: "int option"

text \<open>The answer of the API to \<open>getTokenForCommand\<close>.\<close>

datatype dispatch_result =
    Triggered string string
  | GraphQLErrors "string list"
  | OtherFailure string

datatype event =
    Line string dispatch_result
  | StdinData string
  | SIGINT
  | StdoutData stream_id string
  | StdoutError stream_id string
  | StdoutEnd stream_id
  | SocketUnauthorized socket_id string
  | SocketCancel socket_id string
  | SocketError socket_id string
  | SocketReconnect socket_id
  | SocketReconnectAttempt socket_id

text \<open>
  What the environment answers while the \<open>argv\<close> callback runs: the answer to the
  confirmation prompt, the answer to \<open>COMMANDS_QUERY\<close> (the environments, or the message
  of the error thrown), the answer to the dispatch of the command written by the
  callback (and to the dispatches of further lines, when the written text holds more
  than one), and the status with which the runtime ends the process when the callback
  throws before it has installed any listener.
\<close>

record answers =
  confirmAnswer :: bool
  commandsAnswer :: "string + environment_node list"
  firstDispatch :: dispatch_result
  laterDispatches :: "dispatch_result list"
  uncaughtStatus :: int

subsection \<open>Helpers\<close>

definition emit :: "effect \<Rightarrow> state \<Rightarrow> state" where
  "emit e s = s\<lparr>effects := effects s @ [e]\<rparr>"

text \<open>\<open>process.exit(code)\<close>; \<open>process.exit()\<close> is \<open>process.exit(0)\<close>.\<close>

definition process_exit :: "int \<Rightarrow> state \<Rightarrow> state" where
  "process_exit code s = s\<lparr>effects := effects s @ [Exit code], exited := Some code\<rparr>"

text \<open>\<open>line.startsWith(p)\<close>\<close>

definition startsWith :: "string \<Rightarrow> string \<Rightarrow> bool" where
  "startsWith p line = (take (length p) line = p)"

text \<open>\<open>line.replace(p, r)\<close> with a string pattern: the first occurrence only.\<close>

fun replace_first :: "string \<Rightarrow> string \<Rightarrow> string \<Rightarrow> string" where
  "replace_first p r [] = (if p = [] then r else [])"
| "replace_first p r (c # cs) =
     (if startsWith p (c # cs) then r @ drop (length p) (c # cs)
      else c # replace_first p r cs)"

text \<open>\<open>quotedArgs.join( ' ' )\<close>\<close>

fun join_space :: "string list \<Rightarrow> string" where
  "join_space [] = []"
| "join_space [a] = a"
| "join_space (a # b # bs) = a @ '' '' @ join_space (b # bs)"

definition isSubShell :: "opts \<Rightarrow> bool" where
  "isSubShell cfg = (length (args cfg) = 0 \<and> \<not> truthy_log (opt_log cfg))"

subsection \<open>Pipes and stream events\<close>

definition pipeStreamsToProcess :: "job \<Rightarrow> state \<Rightarrow> state" where
  "pipeStreamsToProcess j s =
     s\<lparr>stdinPipes := stdinPipes s @ [stdinStream j],
       stdoutPipes := stdoutPipes s @ [stdoutStream j]\<rparr>"

definition unpipeStreamsFromProcess :: "job \<Rightarrow> state \<Rightarrow> state" where
  "unpipeStreamsFromProcess j s =
     s\<lparr>stdinPipes := remove1 (stdinStream j) (stdinPipes s),
       stdoutPipes := remove1 (stdoutStream j) (stdoutPipes s)\<rparr>"

text \<open>\<open>bindStreamEvents\<close> installs the \<open>error\<close> and \<open>end\<close> handlers on a stream.\<close>

definition bindStreamEvents :: "stream_id \<Rightarrow> state \<Rightarrow> state" where
  "bindStreamEvents i s = s\<lparr>boundStreams := boundStreams s @ [i]\<rparr>"

text \<open>The \<open>error\<close> handler of a bound output stream.\<close>

definition on_stdout_error :: "string \<Rightarrow> state \<Rightarrow> state" where
  "on_stdout_error msg s =
     emit (ConsoleLog [''Error: '' @ msg]) (s\<lparr>commandRunning := False\<rparr>)"

text \<open>A stream emits \<open>end\<close> once.\<close>

definition stream_ended :: "stream_id \<Rightarrow> state \<Rightarrow> state" where
  "stream_ended i s = s\<lparr>endedStreams := endedStreams s @ [i]\<rparr>"

text \<open>
  The \<open>end\<close> handler of a bound output stream, in two parts: up to its
  \<open>await trackEvent\<close>, and after it. The second part reads the module variable
  \<open>currentJob\<close>; were that \<open>null\<close>, \<open>currentJob.socket\<close> would throw.
\<close>

definition on_stdout_end_begin :: "state \<Rightarrow> state" where
  "on_stdout_end_begin s =
     (let s1 = emit RlClearLine s;
          s2 = s1\<lparr>commandRunning := False\<rparr>
      in emit (TrackEvent ''wpcli_command_end'') s2)"

definition on_stdout_end_finish :: "opts \<Rightarrow> state \<Rightarrow> state" where
  "on_stdout_end_finish cfg s3 =
     (case currentJob s3 of
        None \<Rightarrow> emit (Uncaught ''TypeError'') s3
      | Some j \<Rightarrow>
          (let s4 = emit (SocketClose (socket j)) s3;
               s5 = unpipeStreamsFromProcess j s4;
               s6 = s5\<lparr>currentOffset := 0\<rparr>
           in if \<not> isSubShell cfg then process_exit 0 (emit RlClose s6)
              else emit RlPrompt (emit RlResume s6)))"

definition on_stdout_end :: "opts \<Rightarrow> state \<Rightarrow> state" where
  "on_stdout_end cfg s = on_stdout_end_finish cfg (on_stdout_end_begin s)"

text \<open>The \<open>data\<close> listener that \<open>launchCommandAndGetStreams\<close> puts on its output stream.\<close>

definition on_stdout_data :: "string \<Rightarrow> state \<Rightarrow> state" where
  "on_stdout_data d s = s\<lparr>currentOffset := length d + currentOffset s\<rparr>"

subsection \<open>Opening a transport\<close>

text \<open>\<open>process.stdout.columns || NON_TTY_COLUMNS\<close> and \<open>process.stdout.rows || NON_TTY_ROWS\<close>\<close>

definition terminal_columns :: "opts \<Rightarrow> nat" where
  "terminal_columns cfg = (if stdoutColumns cfg = 0 then NON_TTY_COLUMNS else stdoutColumns cfg)"

definition terminal_rows :: "opts \<Rightarrow> nat" where
  "terminal_rows cfg = (if stdoutRows cfg = 0 then NON_TTY_ROWS else stdoutRows cfg)"

definition launchCommandAndGetStreams ::
  "opts \<Rightarrow> string \<Rightarrow> string option \<Rightarrow> nat \<Rightarrow> string option \<Rightarrow> state \<Rightarrow> job \<times> state" where
  "launchCommandAndGetStreams cfg g tok off act s =
     (let sock = nextId s;
          out = nextId s + 1;
          inp = nextId s + 2;
          d = \<lparr>cmd_guid = g, cmd_inputToken = tok,
               cmd_columns = terminal_columns cfg, cmd_rows = terminal_rows cfg,
               cmd_offset = off, cmd_commandAction = act\<rparr>
      in (\<lparr>stdinStream = inp, stdoutStream = out, socket = sock\<rparr>,
          s\<lparr>nextId := nextId s + 3,
            dataListeners := dataListeners s @ [out],
            launchedSockets := launchedSockets s @ [sock],
            effects := effects s @ [OpenSocket sock, EmitCmd d inp out sock]\<rparr>))"

text \<open>The handlers of the socket that \<open>launchCommandAndGetStreams\<close> installs.\<close>

definition on_unauthorized :: "string \<Rightarrow> state \<Rightarrow> state" where
  "on_unauthorized msg s =
     emit (ConsoleLog [''There was an error with the authentication:'', msg]) s"

definition on_cancel :: "socket_id \<Rightarrow> string \<Rightarrow> state \<Rightarrow> state" where
  "on_cancel k msg s =
     process_exit 1
       (emit (SocketClose k) (emit (ConsoleLog [''Cancel received from server: '' @ msg]) s))"

text \<open>
  An error of the socket reaches two handlers: the one on \<open>IOStream( socket )\<close>, installed
  first, which reports it to Rollbar, and the one on the socket.
\<close>

definition on_socket_error :: "string \<Rightarrow> state \<Rightarrow> state" where
  "on_socket_error err s =
     (let s1 = emit (RollbarError err) s
      in if err = ''Rate limit exceeded''
         then emit (ConsoleLog [CHR 0x0A # ''Error:'',
                      ''Rate limit exceeded: Please wait a moment and try again.'']) s1
         else emit (ConsoleLog [err]) (emit (RollbarError err) s1))"

subsection \<open>The handlers of the prompt loop\<close>

text \<open>
  The \<open>reconnect\<close> handler; \<open>g\<close> and \<open>tok\<close> are \<open>cliCommand.guid\<close> and \<open>inputToken\<close> of the
  \<open>line\<close> handler that installed it.
\<close>

definition on_reconnect :: "opts \<Rightarrow> string \<Rightarrow> string option \<Rightarrow> state \<Rightarrow> state" where
  "on_reconnect cfg g tok s =
     (case currentJob s of
        None \<Rightarrow> emit (Uncaught ''TypeError'') s
      | Some j \<Rightarrow>
          (let s1 = unpipeStreamsFromProcess j s;
               s2 = emit (TrackEvent ''wpcli_command_reconnect'') s1;
               (j', s3) = launchCommandAndGetStreams cfg g tok (currentOffset s2) None s2;
               s4 = s3\<lparr>currentJob := Some j'\<rparr>;
               s5 = pipeStreamsToProcess j' s4;
               s6 = bindStreamEvents (stdoutStream j') s5
           in emit RlResume s6))"

definition on_reconnect_attempt :: "state \<Rightarrow> state" where
  "on_reconnect_attempt s =
     (case currentJob s of
        None \<Rightarrow> emit (Uncaught ''TypeError'') s
      | Some j \<Rightarrow>
          (let s1 = s\<lparr>stdinPipes := remove1 (stdinStream j) (stdinPipes s)\<rparr>;
               s2 = s1\<lparr>stdinPipes := stdinPipes s1 @ [nextId s1], nextId := nextId s1 + 1\<rparr>;
               s3 = s2\<lparr>currentJob := Some (j\<lparr>stdoutStream := nextId s2\<rparr>),
                       nextId := nextId s2 + 1\<rparr>;
               s4 = bindStreamEvents (nextId s2) s3
           in emit (ConsoleError ''There was an error connecting to the server. Retrying...'') s4))"

text \<open>
  The \<open>line\<close> handler, in the parts that its \<open>await\<close>s delimit. \<open>note_quotes\<close> is the
  report of a single quote in the line; \<open>launch_and_bind\<close> is the handler from
  \<open>currentJob = await launchCommandAndGetStreams( ... )\<close> to its end.
\<close>

definition note_quotes :: "string \<Rightarrow> state \<Rightarrow> state" where
  "note_quotes line s =
     (if CHR 0x27 \<in> set line
      then emit (RollbarInfo ''WP-CLI Command containing single quotes'') s else s)"

definition launch_and_bind :: "opts \<Rightarrow> string \<Rightarrow> string option \<Rightarrow> state \<Rightarrow> state" where
  "launch_and_bind cfg g tok s1 =
     (let (j, s2) = launchCommandAndGetStreams cfg g tok 0 (commandAction s1) s1;
          s3 = s2\<lparr>currentJob := Some j\<rparr>;
          s4 = pipeStreamsToProcess j s3;
          s5 = s4\<lparr>commandRunning := True\<rparr>;
          s6 = bindStreamEvents (stdoutStream j) s5
      in s6\<lparr>reconnectHandlers := reconnectHandlers s6 @ [(socket j, g, tok)]\<rparr>)"

text \<open>The end of the \<open>catch\<close> block around \<open>getTokenForCommand\<close>.\<close>

definition dispatch_failed :: "opts \<Rightarrow> state \<Rightarrow> state" where
  "dispatch_failed cfg s =
     (if \<not> isSubShell cfg then process_exit 1 (emit RlClose s) else emit RlPrompt s)"

definition validation_error :: effect where
  "validation_error = ConsoleLog [''Error:'', ''invalid command, please pass a valid WP CLI command.'']"

text \<open>
  The handler up to its first \<open>await\<close>: either it has returned (or exited), or it is
  suspended, at \<open>await getTokenForCommand\<close> or, with \<open>--log\<close>, at the \<open>await\<close> inside
  \<open>launchCommandAndGetStreams\<close>, which comes before anything that function does.
\<close>

datatype line_outcome = Handled state | Suspended state

definition on_line_begin :: "opts \<Rightarrow> string \<Rightarrow> state \<Rightarrow> line_outcome" where
  "on_line_begin cfg line s =
     (if commandRunning s then Handled s
      else if line = [] then Handled (emit RlPrompt s)
      else if startsWith ''exit'' line then Handled (process_exit 0 (emit RlClose s))
      else
        (let startsWithWp = startsWith ''wp '' line;
             empty = (0 = length line);
             userCmdCancelled = (line = cancelCommandChar)
         in if (empty \<or> \<not> startsWithWp) \<and> \<not> userCmdCancelled \<and> \<not> truthy_log (opt_log cfg)
            then Handled (emit RlPrompt (emit validation_error s))
            else
              (let s1 = emit RlPause s
               in if \<not> truthy_log (opt_log cfg) then Suspended s1
                  else Suspended (note_quotes line (s1\<lparr>commandAction := Some ''logs''\<rparr>)))))"

text \<open>The handler after its first \<open>await\<close>, without \<open>--log\<close> and with it.\<close>

definition dispatch_line :: "opts \<Rightarrow> string \<Rightarrow> dispatch_result \<Rightarrow> state \<Rightarrow> state" where
  "dispatch_line cfg line r s1 =
     (let s2 = emit (MutateTrigger (appId cfg) (envId cfg) (replace_first ''wp '' [] line)) s1
      in case r of
           Triggered g t \<Rightarrow> launch_and_bind cfg g (Some t) (note_quotes line s2)
         | GraphQLErrors errs \<Rightarrow>
             dispatch_failed cfg (foldl (\<lambda>st m. emit (ConsoleLog [''Error:'', m]) st) s2 errs)
         | OtherFailure e \<Rightarrow>
             dispatch_failed cfg (emit (ConsoleLog [e]) (emit (RollbarError e) s2)))"

definition attach_log :: "opts \<Rightarrow> state \<Rightarrow> state" where
  "attach_log cfg s = launch_and_bind cfg (log_guid (opt_log cfg)) None s"

definition on_line_finish :: "opts \<Rightarrow> string \<Rightarrow> dispatch_result \<Rightarrow> state \<Rightarrow> state" where
  "on_line_finish cfg line r s =
     (if \<not> truthy_log (opt_log cfg) then dispatch_line cfg line r s else attach_log cfg s)"

text \<open>The handler of a \<open>line\<close> event that arrives on its own.\<close>

definition on_line :: "opts \<Rightarrow> string \<Rightarrow> dispatch_result \<Rightarrow> state \<Rightarrow> state" where
  "on_line cfg line r s =
     (case on_line_begin cfg line s of
        Handled s' \<Rightarrow> s'
      | Suspended s' \<Rightarrow> on_line_finish cfg line r s')"

text \<open>The \<open>data\<close> listener on \<open>process.stdin\<close>.\<close>

definition on_stdin_data :: "string \<Rightarrow> state \<Rightarrow> state" where
  "on_stdin_data d s =
     (if commandRunning s \<and> d = [CHR 0x0D]
      then (case currentJob s of
              None \<Rightarrow> s
            | Some j \<Rightarrow> emit (StreamWrite (stdinStream j) [CHR 0x0A]) s)
      else s)"

text \<open>
  The \<open>SIGINT\<close> handler of the readline interface. It ends the output stream of the
  current job and then awaits \<open>trackEvent\<close>; meanwhile the stream emits \<open>end\<close> (unless it
  has ended before), and its \<open>end\<close> handler, if it is bound, runs up to its own
  \<open>await\<close>: it has cleared \<open>commandRunning\<close> when the \<open>SIGINT\<close> handler resumes and tests
  it.
\<close>

definition end_requested :: "state \<Rightarrow> state" where
  "end_requested s =
     (case currentJob s of
        None \<Rightarrow> s
      | Some j \<Rightarrow>
          (if stdoutStream j \<in> set (boundStreams s) \<and> stdoutStream j \<notin> set (endedStreams s)
           then on_stdout_end_begin (stream_ended (stdoutStream j) s)
           else s))"

definition on_SIGINT :: "state \<Rightarrow> state" where
  "on_SIGINT s =
     (if countSIGINT s \<ge> 1 then process_exit 0 s
      else
        (let s1 = s\<lparr>countSIGINT := countSIGINT s + 1\<rparr>;
             s2 = emit (StdinWrite cancelCommandChar) s1;
             s3 = (case currentJob s2 of
                     None \<Rightarrow> s2
                   | Some j \<Rightarrow> emit (StreamEnd (stdoutStream j)) s2);
             s4 = emit (TrackEvent ''wpcli_cancel_command'') s3;
             s4' = end_requested s4;
             s5 = emit (ConsoleLog [''Command cancelled by user'']) s4'
         in if commandRunning s5 = False then process_exit 0 s5 else s5))"

subsection \<open>Delivering events\<close>

definition step :: "opts \<Rightarrow> event \<Rightarrow> state \<Rightarrow> state" where
  "step cfg ev s =
     (if exited s \<noteq> None then s
      else case ev of
          Line l r \<Rightarrow> on_line cfg l r s
        | StdinData d \<Rightarrow> on_stdin_data d s
        | SIGINT \<Rightarrow> on_SIGINT s
        | StdoutData i d \<Rightarrow> (if i \<in> set (dataListeners s) then on_stdout_data d s else s)
        | StdoutError i msg \<Rightarrow> (if i \<in> set (boundStreams s) then on_stdout_error msg s else s)
        | StdoutEnd i \<Rightarrow>
            (if i \<in> set (boundStreams s) \<and> i \<notin> set (endedStreams s)
             then on_stdout_end cfg (stream_ended i s)
             else s)
        | SocketUnauthorized k msg \<Rightarrow>
            (if k \<in> set (launchedSockets s) then on_unauthorized msg s else s)
        | SocketCancel k msg \<Rightarrow> (if k \<in> set (launchedSockets s) then on_cancel k msg s else s)
        | SocketError k err \<Rightarrow> (if k \<in> set (launchedSockets s) then on_socket_error err s else s)
        | SocketReconnect k \<Rightarrow>
            (case map_of (reconnectHandlers s) k of
               None \<Rightarrow> s
             | Some (g, tok) \<Rightarrow> on_reconnect cfg g tok s)
        | SocketReconnectAttempt k \<Rightarrow>
            (case map_of (reconnectHandlers s) k of
               None \<Rightarrow> s
             | Some c \<Rightarrow> on_reconnect_attempt s))"

fun run :: "opts \<Rightarrow> event list \<Rightarrow> state \<Rightarrow> state" where
  "run cfg [] s = s"
| "run cfg (ev # evs) s = run cfg evs (step cfg ev s)"

subsection \<open>The \<open>argv\<close> callback\<close>

text \<open>The module variables and the callback's variables as they are initialised.\<close>

definition init_state :: state where
  "init_state =
     \<lparr>currentJob = None, currentOffset = 0, commandRunning = False, countSIGINT = 0,
      commandAction = None, muted = False, stdinPipes = [], stdoutPipes = [],
      dataListeners = [], boundStreams = [], endedStreams = [], reconnectHandlers = [],
      launchedSockets = [],
      nextId = 0, effects = [], exited = None\<rparr>"

text \<open>
  \<open>res.data.app.environments.find( e => e.id = envId )\<close>: the callback assigns, so it
  overwrites the \<open>id\<close> of every element it visits and answers the assigned value, which
  is truthy unless it is \<open>0\<close>. The result is the element found and the array as it is
  left.
\<close>

fun find_assign :: "int \<Rightarrow> environment_node list \<Rightarrow> environment_node option \<times> environment_node list" where
  "find_assign v [] = (None, [])"
| "find_assign v (e # es) =
     (let e' = e\<lparr>e_id := v\<rparr>
      in if v \<noteq> 0 then (Some e', e' # es)
         else (case find_assign v es of (found, es') \<Rightarrow> (found, e' # es')))"

text \<open>
  The branch \<open>opts.log === true\<close>: list the completed commands and exit. When the query
  fails, \<open>getEnvCompletedCommands\<close> prints the failure and returns \<open>undefined\<close>, and
  \<open>res.data\<close> throws; when \<open>find\<close> answers \<open>undefined\<close>, \<open>env.commands\<close> throws. The readline
  interface does not exist yet, so the process ends there.
\<close>

definition list_commands :: "opts \<Rightarrow> answers \<Rightarrow> state \<Rightarrow> state" where
  "list_commands cfg ans s =
     (let s1 = emit (QueryCommands (appId cfg)) s
      in case commandsAnswer ans of
           Inl message \<Rightarrow>
             process_exit (uncaughtStatus ans)
               (emit (Uncaught ''TypeError'')
                  (emit (CommandsFailureLog (appId cfg) message) (emit (RollbarError message) s1)))
         | Inr envs \<Rightarrow>
             (case fst (find_assign (envId cfg) envs) of
                None \<Rightarrow> process_exit (uncaughtStatus ans) (emit (Uncaught ''TypeError'') s1)
              | Some env \<Rightarrow>
                  process_exit 0
                    (foldl (\<lambda>st c. emit (ConsoleLog [c_startedAt c, c_command c, c_guid c]) st)
                       s1 (e_commands env))))"

text \<open>
  The block after \<open>trackEvent( 'wpcli_command_execute' )\<close>: the banner of the subshell,
  or the confirmation asked before a command is run on a production environment.
\<close>

definition welcome_or_confirm :: "opts \<Rightarrow> answers \<Rightarrow> state \<Rightarrow> state" where
  "welcome_or_confirm cfg ans s =
     (if isSubShell cfg
      then emit (WelcomeBanner (envType cfg) (appName cfg) (primaryDomain cfg))
             (emit (StdoutWrite ([CHR 0x1B] @ ''[?25h'')) s)
      else if envType cfg = ''production''
      then (if opt_yes cfg then s
            else
              (let s' = emit (ConfirmPrompt (''wp '' @ join_space (args cfg))
                                (envType cfg) (appName cfg)) s
               in if confirmAnswer ans then s'
                  else process_exit 0
                         (emit (ConsoleLog [''Command cancelled''])
                            (emit (TrackEvent ''wpcli_confirm_cancel'') s'))))
      else s)"

text \<open>
  \<open>readline\<close>'s \<open>write\<close> on a terminal splits the text with \<open>split(/\r\n|\n|\r/)\<close>; every
  piece but the last completes a line, which is handed to the \<open>line\<close> handler at once.
\<close>

fun split_lines :: "string \<Rightarrow> string list" where
  "split_lines [] = [Nil]"
| "split_lines [c] = (if c = CHR 0x0A \<or> c = CHR 0x0D then [Nil, Nil] else [c # Nil])"
| "split_lines (c # d # cs) =
     (if c = CHR 0x0D \<and> d = CHR 0x0A then [] # split_lines cs
      else if c = CHR 0x0A \<or> c = CHR 0x0D then [] # split_lines (d # cs)
      else (case split_lines (d # cs) of
              [] \<Rightarrow> [c # Nil]
            | p # ps \<Rightarrow> (c # p) # ps))"

definition written_lines :: "string \<Rightarrow> string list" where
  "written_lines text = butlast (split_lines text)"

text \<open>
  The lines of one \<open>write\<close> reach the handler in the same synchronous call: each
  handler runs up to its first \<open>await\<close> (an exit stops everything), and \<open>begin_lines\<close>
  answers the lines whose handlers are suspended. Then these resume in order
  (\<open>finish_lines\<close>), those that dispatch taking their answers from the list; a handler
  whose dispatch is not answered stays suspended.
\<close>

fun begin_lines :: "opts \<Rightarrow> string list \<Rightarrow> state \<Rightarrow> string list \<times> state" where
  "begin_lines cfg [] s = ([], s)"
| "begin_lines cfg (l # ls) s =
     (if exited s \<noteq> None then ([], s)
      else (case on_line_begin cfg l s of
              Handled s' \<Rightarrow> begin_lines cfg ls s'
            | Suspended s' \<Rightarrow>
                (case begin_lines cfg ls s' of (ps, s'') \<Rightarrow> (l # ps, s''))))"

fun finish_lines :: "opts \<Rightarrow> string list \<Rightarrow> dispatch_result list \<Rightarrow> state \<Rightarrow> state" where
  "finish_lines cfg [] rs s = s"
| "finish_lines cfg (l # ls) rs s =
     (if exited s \<noteq> None then s
      else if truthy_log (opt_log cfg) then finish_lines cfg ls rs (attach_log cfg s)
      else (case rs of
              [] \<Rightarrow> s
            | r # rs' \<Rightarrow> finish_lines cfg ls rs' (dispatch_line cfg l r s)))"

text \<open>
  The last block of the callback when it is not a subshell: the command is written to the
  readline interface, \<open>muted\<close> is reset, and the callback returns.
\<close>

definition write_command :: "opts \<Rightarrow> answers \<Rightarrow> state \<Rightarrow> state" where
  "write_command cfg ans s =
     (let cmd = join_space (args cfg);
          s3 = s\<lparr>muted := True\<rparr>;
          (ps, s4) = begin_lines cfg (written_lines (''wp '' @ cmd @ [CHR 0x0A]))
                       (emit (RlWrite (''wp '' @ cmd @ [CHR 0x0A])) s3);
          s5 = (if exited s4 \<noteq> None then s4 else s4\<lparr>muted := False\<rparr>)
      in finish_lines cfg ps (firstDispatch ans # laterDispatches ans) s5)"

definition argv_handler :: "opts \<Rightarrow> answers \<Rightarrow> state" where
  "argv_handler cfg ans =
     (if truthy_log (opt_log cfg) \<and> opt_log cfg = LogTrue
      then list_commands cfg ans init_state
      else
        (let s2 = welcome_or_confirm cfg ans
                    (emit (TrackEvent ''wpcli_command_execute'') init_state)
         in if exited s2 \<noteq> None then s2
            else if \<not> isSubShell cfg then write_command cfg ans s2
            else emit RlPrompt s2))"

subsection \<open>Notions used by the properties\<close>

text \<open>The length of the chunk that a \<open>data\<close> event of an output stream delivers.\<close>

fun chunk_length :: "event \<Rightarrow> nat" where
  "chunk_length (StdoutData i d) = length d"
| "chunk_length _ = 0"

text \<open>
  What the effects hold, in order: the offsets of the \<open>cmd\<close> objects, the \<open>cmd\<close> objects,
  the calls of \<open>getTokenForCommand\<close> (application, environment, command) and the listing
  queries.
\<close>

definition emitted_offsets :: "effect list \<Rightarrow> nat list" where
  "emitted_offsets es =
     concat (map (\<lambda>e. case e of EmitCmd d i out k \<Rightarrow> [cmd_offset d] | _ \<Rightarrow> []) es)"

definition emitted_cmds :: "effect list \<Rightarrow> cmd_data list" where
  "emitted_cmds es = concat (map (\<lambda>e. case e of EmitCmd d i out k \<Rightarrow> [d] | _ \<Rightarrow> []) es)"

definition dispatch_calls :: "effect list \<Rightarrow> (int \<times> int \<times> string) list" where
  "dispatch_calls es =
     concat (map (\<lambda>e. case e of MutateTrigger a b c \<Rightarrow> [(a, b, c)] | _ \<Rightarrow> []) es)"

definition listing_calls :: "effect list \<Rightarrow> int list" where
  "listing_calls es = concat (map (\<lambda>e. case e of QueryCommands a \<Rightarrow> [a] | _ \<Rightarrow> []) es)"

text \<open>The \<open>cmd\<close> object of a replayed log.\<close>

definition log_cmd :: "opts \<Rightarrow> string \<Rightarrow> cmd_data" where
  "log_cmd cfg g =
     \<lparr>cmd_guid = g, cmd_inputToken = None, cmd_columns = terminal_columns cfg,
      cmd_rows = terminal_rows cfg, cmd_offset = 0, cmd_commandAction = Some ''logs''\<rparr>"

text \<open>How many times the cancellation byte has been written to \<open>process.stdin\<close>.\<close>

definition cancel_writes :: "state \<Rightarrow> nat" where
  "cancel_writes s = count_list (effects s) (StdinWrite cancelCommandChar)"

text \<open>The effects of \<open>s\<close> are still there, in front, in \<open>s'\<close>.\<close>

definition effects_kept :: "state \<Rightarrow> state \<Rightarrow> bool" where
  "effects_kept s s' = (take (length (effects s)) (effects s') = effects s)"

text \<open>
  Standard input and output are bound to the current job when \<open>process.stdin\<close> is piped
  into its input stream and its output stream is piped into \<open>process.stdout\<close>.
\<close>

definition stdio_bound :: "state \<Rightarrow> bool" where
  "stdio_bound s =
     (case currentJob s of
        None \<Rightarrow> False
      | Some j \<Rightarrow> stdinStream j \<in> set (stdinPipes s) \<and> stdoutStream j \<in> set (stdoutPipes s))"


text \<open>No argument holds a line break.\<close>

definition one_line :: "string list \<Rightarrow> bool" where
  "one_line as = list_all (\<lambda>a. CHR 0x0A \<notin> set a \<and> CHR 0x0D \<notin> set a) as"


definition consistent :: "state \<Rightarrow> bool" where
  "consistent s =
     ((case currentJob s of
         None \<Rightarrow> \<not> commandRunning s \<and> reconnectHandlers s = [] \<and> boundStreams s = []
       | Some j \<Rightarrow>
           stdoutStream j \<in> set (boundStreams s) \<and> stdoutStream j < nextId s
           \<and> stdinStream j < nextId s
           \<and> (commandRunning s \<longrightarrow> stdoutStream j \<notin> set (endedStreams s)))
      \<and> list_all (\<lambda>i. i < nextId s)
          (boundStreams s @ endedStreams s @ stdinPipes s @ stdoutPipes s)
      \<and> distinct (stdinPipes s) \<and> distinct (stdoutPipes s)
      \<and> (exited s = None \<longrightarrow> countSIGINT s = 0))"

subsection \<open>Concrete runs\<close>

text \<open>A subshell on a development environment, and the answers of its environment.\<close>

definition demo_cfg :: opts where
  "demo_cfg =
     \<lparr>args = [], opt_log = LogUnset, opt_yes = False, appId = 1, appName = ''site'', orgId = 2,
      envId = 3, envType = ''develop'', primaryDomain = ''site.example'', stdoutColumns = 80,
      stdoutRows = 24\<rparr>"

definition demo_ans :: answers where
  "demo_ans =
     \<lparr>confirmAnswer = False, commandsAnswer = Inl ''not asked'',
      firstDispatch = GraphQLErrors [], laterDispatches = [], uncaughtStatus = 1\<rparr>"

text \<open>
  One command run from the command line, the same on a production environment, the
  replay of the log of a command, and the listing of the completed commands of
  environment \<open>20\<close>, the second of two.
\<close>

definition oneshot_cfg :: opts where
  "oneshot_cfg = demo_cfg\<lparr>args := [''option'', ''get'', ''siteurl'']\<rparr>"

definition production_cfg :: opts where
  "production_cfg = oneshot_cfg\<lparr>envType := ''production''\<rparr>"

definition log_cfg :: opts where
  "log_cfg = demo_cfg\<lparr>opt_log := LogGuid ''guid-1''\<rparr>"

definition listing_cfg :: opts where
  "listing_cfg = demo_cfg\<lparr>opt_log := LogTrue, envId := 20\<rparr>"

definition listing_ans :: answers where
  "listing_ans = demo_ans\<lparr>commandsAnswer := Inr
     [\<lparr>e_id = 10, e_name = ''production'',
       e_commands = [\<lparr>c_guid = ''guid-p'', c_command = ''cache flush'', c_startedAt = ''2020-01-01''\<rparr>]\<rparr>,
      \<lparr>e_id = 20, e_name = ''develop'',
       e_commands = [\<lparr>c_guid = ''guid-d'', c_command = ''plugin list'', c_startedAt = ''2020-01-02''\<rparr>]\<rparr>]\<rparr>"

text \<open>
  The replay of a log with an argument that holds a line break: the text written to the
  prompt is \<open>wp x\<close>, a line feed, \<open>exit\<close>, a line feed; and the same with \<open>b\<close> in
  the place of \<open>exit\<close>.
\<close>

definition log_exit_cfg :: opts where
  "log_exit_cfg = log_cfg\<lparr>args := [''x'' @ [CHR 0x0A] @ ''exit'']\<rparr>"

definition log_two_cfg :: opts where
  "log_two_cfg = log_cfg\<lparr>args := [''a'' @ [CHR 0x0A] @ ''b'']\<rparr>"

text \<open>The replay of a log on a production environment.\<close>

definition log_production_cfg :: opts where
  "log_production_cfg = log_cfg\<lparr>envType := ''production''\<rparr>"

text \<open>One command is dispatched: socket \<open>0\<close>, output stream \<open>1\<close>, input stream \<open>2\<close>.\<close>

definition demo_start :: "event list" where
  "demo_start = [Line ''wp option get siteurl'' (Triggered ''guid-1'' ''token-1'')]"




text \<open>
  A command that delivers three bytes and whose output stream then reports an error,
  and the command dispatched after it (socket \<open>3\<close>, output stream \<open>4\<close>), which delivers
  two bytes.
\<close>

definition errored_command :: "event list" where
  "errored_command =
     [Line ''wp option get siteurl'' (Triggered ''guid-1'' ''token-1''), StdoutData 1 ''abc'',
      StdoutError 1 ''boom'']"

definition command_after_error :: "event list" where
  "command_after_error =
     [Line ''wp option get home'' (Triggered ''guid-2'' ''token-2''), StdoutData 4 ''de'']"

section \<open>Properties\<close>

subsection \<open>Auxiliary facts\<close>

lemmas handler_defs = on_line_def on_line_begin_def on_line_finish_def dispatch_line_def
  attach_log_def note_quotes_def launch_and_bind_def dispatch_failed_def on_stdin_data_def
  on_SIGINT_def end_requested_def stream_ended_def on_stdout_data_def on_stdout_error_def
  on_stdout_end_def on_stdout_end_begin_def on_stdout_end_finish_def on_unauthorized_def
  on_cancel_def on_socket_error_def on_reconnect_def on_reconnect_attempt_def
  launchCommandAndGetStreams_def pipeStreamsToProcess_def unpipeStreamsFromProcess_def
  bindStreamEvents_def emit_def process_exit_def validation_error_def

lemma foldl_emit:
  "foldl (\<lambda>st m. st\<lparr>effects := effects st @ [f m]\<rparr>) s xs = s\<lparr>effects := effects s @ map f xs\<rparr>"
  by (induction xs arbitrary: s) simp_all

lemma step_exited: "exited s \<noteq> None \<Longrightarrow> step cfg e s = s"
  by (simp add: step_def)

lemma run_exited: "exited s \<noteq> None \<Longrightarrow> run cfg es s = s"
  by (induction es) (simp_all add: step_exited)







lemma consistent_effects [simp]: "consistent (s\<lparr>effects := x\<rparr>) = consistent s"
  by (simp add: consistent_def split: option.splits)

lemma consistent_muted [simp]: "consistent (s\<lparr>muted := x\<rparr>) = consistent s"
  by (simp add: consistent_def split: option.splits)

lemma consistent_action [simp]: "consistent (s\<lparr>commandAction := x\<rparr>) = consistent s"
  by (simp add: consistent_def split: option.splits)

lemma consistent_offset [simp]: "consistent (s\<lparr>currentOffset := x\<rparr>) = consistent s"
  by (simp add: consistent_def split: option.splits)


lemma consistent_note_quotes [simp]: "consistent (note_quotes l s) = consistent s"
  by (simp add: note_quotes_def emit_def)
















lemma finish_lines_induct:
  assumes "P s"
      and "\<And>s l r. P s \<Longrightarrow> P (dispatch_line cfg l r s)"
      and "\<And>s. P s \<Longrightarrow> P (attach_log cfg s)"
  shows "P (finish_lines cfg ps rs s)"
  using assms(1)
proof (induction ps arbitrary: rs s)
  case Nil
  then show ?case by simp
next
  case (Cons l ps)
  then show ?case
    by (cases rs) (simp_all add: assms(2,3))
qed











lemma bound_effects [simp]: "stdio_bound (s\<lparr>effects := x\<rparr>) = stdio_bound s"
  by (simp add: stdio_bound_def split: option.splits)

lemma bound_exited [simp]: "stdio_bound (s\<lparr>exited := x\<rparr>) = stdio_bound s"
  by (simp add: stdio_bound_def split: option.splits)

lemma bound_action [simp]: "stdio_bound (s\<lparr>commandAction := x\<rparr>) = stdio_bound s"
  by (simp add: stdio_bound_def split: option.splits)













lemma cancel_char_facts:
  "cancelCommandChar \<noteq> [] \<and> \<not> startsWith ''exit'' cancelCommandChar
   \<and> \<not> startsWith ''wp '' cancelCommandChar
   \<and> replace_first ''wp '' [] cancelCommandChar = cancelCommandChar
   \<and> CHR 0x27 \<notin> set cancelCommandChar"
  by (simp add: cancelCommandChar_def startsWith_def)

lemma line_ignored_while_running: "commandRunning s \<Longrightarrow> step cfg (Line l r) s = s"
  by (simp add: step_def on_line_def on_line_begin_def)

lemma dispatch_calls_append [simp]:
  "dispatch_calls (xs @ ys) = dispatch_calls xs @ dispatch_calls ys"
  by (simp add: dispatch_calls_def)



lemma kept_iff: "effects_kept s s' \<longleftrightarrow> (\<exists>r. effects s' = effects s @ r)"
proof
  assume "effects_kept s s'"
  then have "effects s' = effects s @ drop (length (effects s)) (effects s')"
    unfolding effects_kept_def by (metis append_take_drop_id)
  then show "\<exists>r. effects s' = effects s @ r" ..
next
  assume "\<exists>r. effects s' = effects s @ r"
  then show "effects_kept s s'" by (auto simp: effects_kept_def)
qed

lemma kept_refl: "effects_kept s s"
  by (simp add: kept_iff)

lemma kept_trans: "effects_kept s t \<Longrightarrow> effects_kept t u \<Longrightarrow> effects_kept s u"
  by (auto simp: kept_iff)

lemma kept_launch_and_bind: "effects_kept s (launch_and_bind cfg g tok s)"
  by (simp add: kept_iff handler_defs Let_def)

lemma kept_dispatch_line: "effects_kept s (dispatch_line cfg l r s)"
  by (cases r) (auto simp: kept_iff handler_defs foldl_emit Let_def)

lemma kept_attach_log: "effects_kept s (attach_log cfg s)"
  by (simp add: attach_log_def kept_launch_and_bind)

lemma kept_begin:
  "on_line_begin cfg l s = Handled s' \<or> on_line_begin cfg l s = Suspended s' \<Longrightarrow> effects_kept s s'"
  by (auto simp: kept_iff on_line_begin_def note_quotes_def emit_def process_exit_def
        validation_error_def Let_def split: if_splits)

lemma kept_begin_lines: "effects_kept s (snd (begin_lines cfg ls s))"
proof (induction ls arbitrary: s)
  case Nil
  show ?case by (simp add: kept_refl)
next
  case (Cons l ls)
  show ?case
  proof (cases "on_line_begin cfg l s")
    case (Handled s')
    then have "effects_kept s s'" using kept_begin by blast
    with Cons.IH [of s'] have "effects_kept s (snd (begin_lines cfg ls s'))"
      using kept_trans by blast
    with Handled show ?thesis by (simp add: kept_refl)
  next
    case (Suspended s')
    then have "effects_kept s s'" using kept_begin by blast
    with Cons.IH [of s'] have "effects_kept s (snd (begin_lines cfg ls s'))"
      using kept_trans by blast
    with Suspended show ?thesis by (auto simp: kept_refl split: prod.splits)
  qed
qed

lemma kept_finish_lines: "effects_kept s (finish_lines cfg ps rs s)"
proof (rule finish_lines_induct [where P = "effects_kept s"])
  show "effects_kept s s" by (rule kept_refl)
next
  fix t l r
  assume "effects_kept s t"
  then show "effects_kept s (dispatch_line cfg l r t)" using kept_dispatch_line kept_trans by blast
next
  fix t
  assume "effects_kept s t"
  then show "effects_kept s (attach_log cfg t)" using kept_attach_log kept_trans by blast
qed

lemma write_command_effects: "effects_kept s (write_command cfg ans s)"
proof -
  let ?text = "''wp '' @ join_space (args cfg) @ [CHR 0x0A]"
  let ?s3 = "emit (RlWrite ?text) (s\<lparr>muted := True\<rparr>)"
  obtain ps s4 where b: "begin_lines cfg (written_lines ?text) ?s3 = (ps, s4)"
    by (cases "begin_lines cfg (written_lines ?text) ?s3") auto
  let ?s5 = "if exited s4 \<noteq> None then s4 else s4\<lparr>muted := False\<rparr>"
  have "effects_kept s ?s3" by (simp add: kept_iff emit_def)
  moreover have "effects_kept ?s3 s4"
    using kept_begin_lines [of ?s3 cfg "written_lines ?text"] b by simp
  moreover have "effects_kept s4 ?s5" by (simp add: kept_iff)
  moreover have "effects_kept ?s5 (finish_lines cfg ps (firstDispatch ans # laterDispatches ans) ?s5)"
    by (rule kept_finish_lines)
  moreover have "write_command cfg ans s = finish_lines cfg ps (firstDispatch ans # laterDispatches ans) ?s5"
    using b by (simp add: write_command_def Let_def)
  ultimately show ?thesis by (metis kept_trans)
qed

lemma exited_dispatch_calls:
  "exited s \<noteq> None \<Longrightarrow> dispatch_calls (effects (run cfg es s)) = dispatch_calls (effects s)"
  by (simp add: run_exited)

lemma calls_of_console:
  "dispatch_calls (map (\<lambda>m. ConsoleLog (f m)) xs) = []"
  "listing_calls (map (\<lambda>m. ConsoleLog (f m)) xs) = []"
  by (induction xs) (simp_all add: dispatch_calls_def listing_calls_def)

lemma listing_calls_append [simp]:
  "listing_calls (xs @ ys) = listing_calls xs @ listing_calls ys"
  by (simp add: listing_calls_def)

lemma emitted_cmds_append [simp]:
  "emitted_cmds (xs @ ys) = emitted_cmds xs @ emitted_cmds ys"
  by (simp add: emitted_cmds_def)

lemma step_no_listing: "listing_calls (effects (step cfg e s)) = listing_calls (effects s)"
  by (cases e)
     (auto simp: step_def handler_defs foldl_emit calls_of_console Let_def listing_calls_def
           split: option.splits prod.splits dispatch_result.splits)

lemma run_no_listing: "listing_calls (effects (run cfg es s)) = listing_calls (effects s)"
  by (induction es arbitrary: s) (simp_all add: step_no_listing)

lemma step_log_no_dispatch:
  "truthy_log (opt_log cfg) \<Longrightarrow> dispatch_calls (effects (step cfg e s)) = dispatch_calls (effects s)"
  by (cases e)
     (auto simp: step_def handler_defs foldl_emit calls_of_console Let_def dispatch_calls_def
           split: option.splits prod.splits dispatch_result.splits)

lemma run_log_no_dispatch:
  "truthy_log (opt_log cfg) \<Longrightarrow> dispatch_calls (effects (run cfg es s)) = dispatch_calls (effects s)"
  by (induction es arbitrary: s) (simp_all add: step_log_no_dispatch)

lemma split_plain:
  "CHR 0x0A \<notin> set t \<Longrightarrow> CHR 0x0D \<notin> set t \<Longrightarrow> split_lines (t @ [CHR 0x0A]) = [t, []]"
proof (induction t)
  case Nil
  show ?case by simp
next
  case (Cons c cs)
  obtain d rest where dr: "cs @ [CHR 0x0A] = d # rest" by (cases cs) auto
  from Cons have ih: "split_lines (d # rest) = [cs, []]" by (simp add: dr [symmetric])
  from Cons.prems have "c \<noteq> CHR 0x0A" "c \<noteq> CHR 0x0D" by auto
  then have "split_lines (c # d # rest) = [c # cs, []]" by (simp add: ih)
  then show ?case by (simp add: dr)
qed

lemma join_space_chars: "c \<in> set (join_space as) \<Longrightarrow> c = CHR '' '' \<or> (\<exists>a \<in> set as. c \<in> set a)"
  by (induction as rule: join_space.induct) auto

lemma written_one_line:
  assumes "one_line (args cfg)"
  shows "written_lines (''wp '' @ join_space (args cfg) @ [CHR 0x0A]) = [''wp '' @ join_space (args cfg)]"
proof -
  have "CHR 0x0A \<notin> set (join_space (args cfg))" "CHR 0x0D \<notin> set (join_space (args cfg))"
    using assms join_space_chars [of _ "args cfg"] by (auto simp: one_line_def list_all_iff)
  then have "split_lines ((''wp '' @ join_space (args cfg)) @ [CHR 0x0A]) = [''wp '' @ join_space (args cfg), []]"
    by (intro split_plain) auto
  then show ?thesis by (simp add: written_lines_def)
qed

lemma log_begin:
  assumes "truthy_log (opt_log cfg)"
      and "on_line_begin cfg l s = Handled s' \<or> on_line_begin cfg l s = Suspended s'"
  shows "listing_calls (effects s') = listing_calls (effects s)
       \<and> dispatch_calls (effects s') = dispatch_calls (effects s)
       \<and> emitted_cmds (effects s') = emitted_cmds (effects s)
       \<and> (commandAction s = Some ''logs'' \<longrightarrow> commandAction s' = Some ''logs'')
       \<and> (on_line_begin cfg l s = Suspended s' \<longrightarrow> commandAction s' = Some ''logs'')"
  using assms
  by (auto simp: on_line_begin_def note_quotes_def emit_def process_exit_def validation_error_def
        Let_def listing_calls_def dispatch_calls_def emitted_cmds_def split: if_splits)

lemma log_begin_lines:
  assumes "truthy_log (opt_log cfg)" and "begin_lines cfg ls s = (ps, s')"
  shows "listing_calls (effects s') = listing_calls (effects s)
       \<and> dispatch_calls (effects s') = dispatch_calls (effects s)
       \<and> emitted_cmds (effects s') = emitted_cmds (effects s)
       \<and> (commandAction s = Some ''logs'' \<or> ps \<noteq> [] \<longrightarrow> commandAction s' = Some ''logs'')"
  using assms(2)
proof (induction ls arbitrary: s ps)
  case Nil
  then show ?case by simp
next
  case (Cons l ls)
  show ?case
  proof (cases "exited s \<noteq> None")
    case True
    with Cons.prems show ?thesis by simp
  next
    case alive: False
    show ?thesis
    proof (cases "on_line_begin cfg l s")
      case (Handled t)
      with alive Cons.prems have b: "begin_lines cfg ls t = (ps, s')" by simp
      from log_begin [OF assms(1), of l s t] Handled Cons.IH [OF b] show ?thesis by auto
    next
      case (Suspended t)
      with alive Cons.prems obtain qs where b: "begin_lines cfg ls t = (qs, s')" and "ps = l # qs"
        by (auto split: prod.splits)
      from log_begin [OF assms(1), of l s t] Suspended Cons.IH [OF b] show ?thesis by auto
    qed
  qed
qed

lemma log_attach:
  assumes "commandAction s = Some ''logs''"
  shows "listing_calls (effects (attach_log cfg s)) = listing_calls (effects s)
       \<and> dispatch_calls (effects (attach_log cfg s)) = dispatch_calls (effects s)
       \<and> emitted_cmds (effects (attach_log cfg s)) =
           emitted_cmds (effects s) @ [log_cmd cfg (log_guid (opt_log cfg))]
       \<and> commandAction (attach_log cfg s) = Some ''logs''
       \<and> exited (attach_log cfg s) = exited s
       \<and> commandRunning (attach_log cfg s)"
  using assms
  by (simp add: attach_log_def handler_defs Let_def listing_calls_def dispatch_calls_def
        emitted_cmds_def log_cmd_def)

lemma log_finish_lines:
  assumes "truthy_log (opt_log cfg)" and "commandAction s = Some ''logs'' \<or> ps = []"
  shows "listing_calls (effects (finish_lines cfg ps rs s)) = listing_calls (effects s)
       \<and> dispatch_calls (effects (finish_lines cfg ps rs s)) = dispatch_calls (effects s)
       \<and> emitted_cmds (effects (finish_lines cfg ps rs s)) =
           emitted_cmds (effects s) @
           (if exited s = None then replicate (length ps) (log_cmd cfg (log_guid (opt_log cfg))) else [])
       \<and> exited (finish_lines cfg ps rs s) = exited s
       \<and> (ps \<noteq> [] \<and> exited s = None \<longrightarrow> commandRunning (finish_lines cfg ps rs s))
       \<and> (ps = [] \<longrightarrow> finish_lines cfg ps rs s = s)"
  using assms(2)
proof (induction ps arbitrary: s)
  case Nil
  then show ?case by simp
next
  case (Cons l ps)
  then have act: "commandAction s = Some ''logs''" by simp
  show ?case
  proof (cases "exited s = None")
    case False
    then show ?thesis by auto
  next
    case True
    let ?t = "attach_log cfg s"
    let ?d = "log_cmd cfg (log_guid (opt_log cfg))"
    note at = log_attach [OF act, of cfg]
    from at have "commandAction ?t = Some ''logs'' \<or> ps = []" by simp
    note ih = Cons.IH [OF this]
    from at True have alive': "exited ?t = None" by simp
    from True assms(1) have eq: "finish_lines cfg (l # ps) rs s = finish_lines cfg ps rs ?t"
      by simp
    have c1: "listing_calls (effects (finish_lines cfg ps rs ?t)) = listing_calls (effects s)"
      using ih at by simp
    have c2: "dispatch_calls (effects (finish_lines cfg ps rs ?t)) = dispatch_calls (effects s)"
      using ih at by simp
    have "emitted_cmds (effects (finish_lines cfg ps rs ?t)) =
            (emitted_cmds (effects s) @ [?d]) @ replicate (length ps) ?d"
      using ih at alive' by simp
    then have c3: "emitted_cmds (effects (finish_lines cfg ps rs ?t)) =
            emitted_cmds (effects s) @ replicate (length (l # ps)) ?d"
      by simp
    have c4: "exited (finish_lines cfg ps rs ?t) = exited s"
      using ih at by simp
    have c5: "commandRunning (finish_lines cfg ps rs ?t)"
      using ih at alive' by (cases "ps = []") auto
    show ?thesis
      by (simp only: eq c1 c2 c3 c4 c5 True if_True) simp
  qed
qed

lemma log_single_line:
  assumes "truthy_log (opt_log cfg)" and "\<not> commandRunning s" and "exited s = None"
  shows "\<exists>t. begin_lines cfg [''wp '' @ c] s = ([''wp '' @ c], t) \<and> exited t = None"
  using assms
  by (simp add: on_line_begin_def startsWith_def note_quotes_def emit_def Let_def)

subsection \<open>The output offset\<close>

text \<open>
  Claim C1. \<open>currentOffset\<close> is shared by all commands of the prompt loop. The \<open>end\<close>
  handler of an output stream sets it back to \<open>0\<close>; the \<open>error\<close> handler of the same stream
  clears \<open>commandRunning\<close> and leaves the offset as it is. In a subshell, a command delivers
  three bytes and its output stream then reports an error; the next line is dispatched, its
  transport is opened with offset \<open>0\<close>, and the command delivers two bytes. The process is
  alive, the command is running, the chunks of this command sum to \<open>2\<close>, and yet
  \<open>currentOffset\<close> is \<open>5\<close>, and the transport that a \<open>reconnect\<close> opens carries the
  offset \<open>5\<close>: the offsets sent are \<open>0\<close>, \<open>0\<close> and \<open>5\<close>.
\<close>

theorem offset_stale_after_error:
  "exited (run demo_cfg (errored_command @ command_after_error) (argv_handler demo_cfg demo_ans)) = None
   \<and> commandRunning (run demo_cfg (errored_command @ command_after_error) (argv_handler demo_cfg demo_ans))
   \<and> sum_list (map chunk_length command_after_error) = 2
   \<and> currentOffset (run demo_cfg errored_command (argv_handler demo_cfg demo_ans)) = 3
   \<and> currentOffset (run demo_cfg (errored_command @ command_after_error) (argv_handler demo_cfg demo_ans)) = 5
   \<and> emitted_offsets (effects (run demo_cfg (errored_command @ command_after_error @ [SocketReconnect 3])
        (argv_handler demo_cfg demo_ans))) = [0, 0, 5]"
  by code_simp

subsection \<open>Interrupts\<close>

text \<open>
  Claim C2. In a subshell, one command is running and the interrupt counter is \<open>0\<close>. A
  single interrupt writes the cancellation byte once and ends the output stream; the
  \<open>end\<close> handler of the stream clears \<open>commandRunning\<close> while the interrupt handler awaits
  its tracking event, and the test that ends the interrupt handler then finds no command
  running: the process exits with status \<open>0\<close> on the first interrupt.
\<close>

theorem first_interrupt_exits:
  "commandRunning (run demo_cfg demo_start (argv_handler demo_cfg demo_ans))
   \<and> exited (run demo_cfg demo_start (argv_handler demo_cfg demo_ans)) = None
   \<and> countSIGINT (run demo_cfg demo_start (argv_handler demo_cfg demo_ans)) = 0
   \<and> exited (run demo_cfg (demo_start @ [SIGINT]) (argv_handler demo_cfg demo_ans)) = Some 0
   \<and> cancel_writes (run demo_cfg (demo_start @ [SIGINT]) (argv_handler demo_cfg demo_ans)) = 1"
  by code_simp



subsection \<open>The flag \<open>commandRunning\<close> and the pipes\<close>




subsection \<open>The \<open>line\<close> handler\<close>

text \<open>
  Claim C5, as stated, fails: while \<open>commandRunning\<close> is true the \<open>line\<close> handler
  returns at its first test, so a line made of the cancellation byte changes nothing
  then: nothing is written, sent or dispatched.
\<close>

theorem cancel_line_ignored_while_running:
  "commandRunning (run demo_cfg demo_start (argv_handler demo_cfg demo_ans))
   \<and> exited (run demo_cfg demo_start (argv_handler demo_cfg demo_ans)) = None
   \<and> step demo_cfg (Line cancelCommandChar (Triggered ''guid-2'' ''token-2''))
        (run demo_cfg demo_start (argv_handler demo_cfg demo_ans))
      = run demo_cfg demo_start (argv_handler demo_cfg demo_ans)"
  by code_simp

text \<open>
  Claim C5 as amended. While \<open>commandRunning\<close> is true the \<open>line\<close> handler ignores every
  line. While no command is running (and \<open>--log\<close> is not set), a line made of the
  cancellation byte passes the validation although it does not start with \<open>wp \<close>: the
  handler pauses the prompt, calls the dispatcher with the byte as the command, and on
  success opens a transport and sets \<open>commandRunning\<close>; no validation error is printed.
\<close>

theorem cancel_line_passes_validation:
  "(commandRunning s \<longrightarrow> step cfg (Line l r) s = s)
   \<and> (exited s = None \<and> \<not> commandRunning s \<and> \<not> truthy_log (opt_log cfg) \<longrightarrow>
        effects (step cfg (Line cancelCommandChar (Triggered g t)) s) =
          effects s @
          [RlPause, MutateTrigger (appId cfg) (envId cfg) cancelCommandChar, OpenSocket (nextId s),
           EmitCmd \<lparr>cmd_guid = g, cmd_inputToken = Some t, cmd_columns = terminal_columns cfg,
                    cmd_rows = terminal_rows cfg, cmd_offset = 0,
                    cmd_commandAction = commandAction s\<rparr>
             (nextId s + 2) (nextId s + 1) (nextId s)]
        \<and> commandRunning (step cfg (Line cancelCommandChar (Triggered g t)) s))"
  using cancel_char_facts
  by (auto simp: line_ignored_while_running step_def handler_defs Let_def)

theorem cancel_line_passes_validation_witness:
  "exited (argv_handler demo_cfg demo_ans) = None \<and> \<not> commandRunning (argv_handler demo_cfg demo_ans)
   \<and> \<not> truthy_log (opt_log demo_cfg)
   \<and> commandRunning (run demo_cfg demo_start (argv_handler demo_cfg demo_ans))
   \<and> commandRunning (step demo_cfg (Line cancelCommandChar (Triggered ''guid-2'' ''token-2''))
        (argv_handler demo_cfg demo_ans))
   \<and> step demo_cfg (Line cancelCommandChar (Triggered ''guid-2'' ''token-2''))
        (run demo_cfg demo_start (argv_handler demo_cfg demo_ans))
      = run demo_cfg demo_start (argv_handler demo_cfg demo_ans)"
proof -
  let ?s = "argv_handler demo_cfg demo_ans"
  let ?t = "run demo_cfg demo_start ?s"
  have h1: "exited ?s = None \<and> \<not> commandRunning ?s \<and> \<not> truthy_log (opt_log demo_cfg)"
    by code_simp
  have h2: "commandRunning ?t" by code_simp
  from cancel_line_passes_validation [of ?s demo_cfg cancelCommandChar "Triggered ''guid-2'' ''token-2''" "''guid-2''" "''token-2''"] h1
  have "commandRunning (step demo_cfg (Line cancelCommandChar (Triggered ''guid-2'' ''token-2'')) ?s)"
    by blast
  moreover from cancel_line_passes_validation [of ?t demo_cfg cancelCommandChar "Triggered ''guid-2'' ''token-2''" "''guid-2''" "''token-2''"] h2
  have "step demo_cfg (Line cancelCommandChar (Triggered ''guid-2'' ''token-2'')) ?t = ?t"
    by blast
  ultimately show ?thesis using h1 h2 by blast
qed




text \<open>
  Claim C7. A line that reaches the dispatcher (no command running, \<open>--log\<close> not set, the
  line valid) and whose dispatch fails: with GraphQL errors, one \<open>Error:\<close> line is
  printed for each of them, in order; with any other failure, the failure is reported
  to Rollbar and printed whole. Then, not in a subshell, the prompt is closed and the
  process exits with status \<open>1\<close>; in a subshell the prompt is shown again, the process
  stays alive, and nothing but the effects has changed, so no command is running.
\<close>

theorem dispatch_failure_reported:
  assumes "exited s = None" and "\<not> commandRunning s" and "\<not> truthy_log (opt_log cfg)"
      and "l \<noteq> []" and "\<not> startsWith ''exit'' l" and "startsWith ''wp '' l \<or> l = cancelCommandChar"
  shows "step cfg (Line l (GraphQLErrors errs)) s =
           (if isSubShell cfg
            then s\<lparr>effects := effects s
                     @ [RlPause, MutateTrigger (appId cfg) (envId cfg) (replace_first ''wp '' [] l)]
                     @ map (\<lambda>m. ConsoleLog [''Error:'', m]) errs @ [RlPrompt]\<rparr>
            else s\<lparr>effects := effects s
                     @ [RlPause, MutateTrigger (appId cfg) (envId cfg) (replace_first ''wp '' [] l)]
                     @ map (\<lambda>m. ConsoleLog [''Error:'', m]) errs @ [RlClose, Exit 1],
                   exited := Some 1\<rparr>)
       \<and> step cfg (Line l (OtherFailure e)) s =
           (if isSubShell cfg
            then s\<lparr>effects := effects s
                     @ [RlPause, MutateTrigger (appId cfg) (envId cfg) (replace_first ''wp '' [] l),
                        RollbarError e, ConsoleLog [e], RlPrompt]\<rparr>
            else s\<lparr>effects := effects s
                     @ [RlPause, MutateTrigger (appId cfg) (envId cfg) (replace_first ''wp '' [] l),
                        RollbarError e, ConsoleLog [e], RlClose, Exit 1],
                   exited := Some 1\<rparr>)"
  using assms
  by (auto simp: step_def on_line_def on_line_begin_def on_line_finish_def dispatch_line_def
        dispatch_failed_def emit_def process_exit_def foldl_emit Let_def)

theorem dispatch_failure_reported_witness:
  "exited (argv_handler demo_cfg demo_ans) = None \<and> \<not> commandRunning (argv_handler demo_cfg demo_ans)
   \<and> \<not> truthy_log (opt_log demo_cfg) \<and> ''wp x'' \<noteq> [] \<and> \<not> startsWith ''exit'' ''wp x''
   \<and> startsWith ''wp '' ''wp x''
   \<and> exited (step demo_cfg (Line ''wp x'' (GraphQLErrors [''Unauthorized'', ''Unknown environment'']))
        (argv_handler demo_cfg demo_ans)) = None
   \<and> drop (length (effects (argv_handler demo_cfg demo_ans)))
        (effects (step demo_cfg (Line ''wp x'' (GraphQLErrors [''Unauthorized'', ''Unknown environment'']))
           (argv_handler demo_cfg demo_ans)))
      = [RlPause, MutateTrigger 1 3 ''x'', ConsoleLog [''Error:'', ''Unauthorized''],
         ConsoleLog [''Error:'', ''Unknown environment''], RlPrompt]
   \<and> exited (argv_handler oneshot_cfg demo_ans) = Some 1"
proof -
  let ?s = "argv_handler demo_cfg demo_ans"
  have h: "exited ?s = None" "\<not> commandRunning ?s" "\<not> truthy_log (opt_log demo_cfg)"
    "''wp x'' \<noteq> []" "\<not> startsWith ''exit'' ''wp x''" "startsWith ''wp '' ''wp x'' \<or> ''wp x'' = cancelCommandChar"
    by code_simp+
  have sub: "isSubShell demo_cfg" by code_simp
  have r: "replace_first ''wp '' [] ''wp x'' = ''x''" by code_simp
  have ids: "appId demo_cfg = 1 \<and> envId demo_cfg = 3" by code_simp
  have one: "exited (argv_handler oneshot_cfg demo_ans) = Some 1" by code_simp
  have w: "startsWith ''wp '' ''wp x''" by code_simp
  from dispatch_failure_reported [OF h, of "[''Unauthorized'', ''Unknown environment'']"] sub
  have "step demo_cfg (Line ''wp x'' (GraphQLErrors [''Unauthorized'', ''Unknown environment''])) ?s =
      ?s\<lparr>effects := effects ?s
           @ [RlPause, MutateTrigger (appId demo_cfg) (envId demo_cfg) (replace_first ''wp '' [] ''wp x'')]
           @ map (\<lambda>m. ConsoleLog [''Error:'', m]) [''Unauthorized'', ''Unknown environment''] @ [RlPrompt]\<rparr>"
    by simp
  then show ?thesis using h(1-5) w r ids one by simp
qed

subsection \<open>The \<open>argv\<close> callback\<close>

text \<open>
  Claim C8. One command on a production environment without \<open>--yes\<close> (not a subshell,
  and \<open>--log\<close> not the bare flag, which lists and exits before): the first two things the
  program does are the tracking event and the confirmation prompt, so the prompt comes
  before any call of the dispatcher; and if the answer is no, the process exits with
  status \<open>0\<close> and the dispatcher is not called, then or later.
\<close>

theorem production_confirmation_first:
  assumes "\<not> isSubShell cfg" and "opt_log cfg \<noteq> LogTrue" and "envType cfg = ''production''"
      and "\<not> opt_yes cfg"
  shows "take 2 (effects (argv_handler cfg ans)) =
           [TrackEvent ''wpcli_command_execute'',
            ConfirmPrompt (''wp '' @ join_space (args cfg)) (envType cfg) (appName cfg)]
       \<and> dispatch_calls (take 2 (effects (argv_handler cfg ans))) = []
       \<and> (\<not> confirmAnswer ans \<longrightarrow>
            exited (argv_handler cfg ans) = Some 0
            \<and> dispatch_calls (effects (run cfg es (argv_handler cfg ans))) = [])"
proof -
  let ?p = "ConfirmPrompt (''wp '' @ join_space (args cfg)) (envType cfg) (appName cfg)"
  let ?s1 = "emit (TrackEvent ''wpcli_command_execute'') init_state"
  let ?s2 = "emit ?p ?s1"
  have first: "take 2 (effects (argv_handler cfg ans)) = [TrackEvent ''wpcli_command_execute'', ?p]"
  proof (cases "confirmAnswer ans")
    case True
    with assms have eq: "argv_handler cfg ans = write_command cfg ans ?s2"
      by (simp add: argv_handler_def welcome_or_confirm_def Let_def emit_def init_state_def)
    have e2: "effects ?s2 = [TrackEvent ''wpcli_command_execute'', ?p]"
      by (simp add: emit_def init_state_def)
    then have len: "length (effects ?s2) = 2" by simp
    have "take (length (effects ?s2)) (effects (write_command cfg ans ?s2)) = effects ?s2"
      using write_command_effects [of ?s2 cfg ans] by (simp only: effects_kept_def)
    then have "take 2 (effects (write_command cfg ans ?s2)) = effects ?s2"
      unfolding len .
    then show ?thesis unfolding eq e2 .
  next
    case False
    with assms show ?thesis
      by (simp add: argv_handler_def welcome_or_confirm_def Let_def emit_def process_exit_def
            init_state_def)
  qed
  have declined: "exited (argv_handler cfg ans) = Some 0
      \<and> dispatch_calls (effects (argv_handler cfg ans)) = []" if "\<not> confirmAnswer ans"
    using that assms
    by (simp add: argv_handler_def welcome_or_confirm_def Let_def emit_def process_exit_def
          init_state_def dispatch_calls_def)
  from first have "dispatch_calls (take 2 (effects (argv_handler cfg ans))) = []"
    by (simp add: dispatch_calls_def)
  with first declined exited_dispatch_calls [of "argv_handler cfg ans" cfg es]
  show ?thesis by auto
qed

theorem production_confirmation_first_witness:
  "\<not> isSubShell production_cfg \<and> opt_log production_cfg \<noteq> LogTrue
   \<and> envType production_cfg = ''production'' \<and> \<not> opt_yes production_cfg
   \<and> \<not> confirmAnswer demo_ans
   \<and> take 2 (effects (argv_handler production_cfg demo_ans)) =
       [TrackEvent ''wpcli_command_execute'',
        ConfirmPrompt ''wp option get siteurl'' ''production'' ''site'']
   \<and> exited (argv_handler production_cfg demo_ans) = Some 0
   \<and> dispatch_calls (effects (run production_cfg demo_start (argv_handler production_cfg demo_ans))) = []"
proof -
  have h: "\<not> isSubShell production_cfg" "opt_log production_cfg \<noteq> LogTrue"
    "envType production_cfg = ''production''" "\<not> opt_yes production_cfg"
    by code_simp+
  have d: "\<not> confirmAnswer demo_ans" by code_simp
  have v: "''wp '' @ join_space (args production_cfg) = ''wp option get siteurl''
      \<and> appName production_cfg = ''site''" by code_simp
  from production_confirmation_first [OF h, of demo_ans demo_start] d v h(3)
  show ?thesis using h by simp
qed

text \<open>
  Claim C9, as stated, fails: with \<open>--log\<close> set to a command identifier, the transport is
  opened by the \<open>line\<close> handler, once for each line that the prompt makes of the text
  \<open>wp \<close>, the arguments and a line feed. With the argument \<open>x\<close>, line feed, \<open>exit\<close> the
  second line closes the prompt and the process exits with status \<open>0\<close> before any
  transport is opened; with the argument \<open>a\<close>, line feed, \<open>b\<close> two transports are opened;
  and on a production environment without \<open>--yes\<close>, the confirmation being declined, the
  process exits with status \<open>0\<close> and no transport is opened.
\<close>

theorem log_replay_depends_on_line_breaks:
  "opt_log log_exit_cfg = LogGuid ''guid-1'' \<and> envType log_exit_cfg \<noteq> ''production''
   \<and> emitted_cmds (effects (argv_handler log_exit_cfg demo_ans)) = []
   \<and> exited (argv_handler log_exit_cfg demo_ans) = Some 0
   \<and> opt_log log_two_cfg = LogGuid ''guid-1'' \<and> envType log_two_cfg \<noteq> ''production''
   \<and> emitted_cmds (effects (argv_handler log_two_cfg demo_ans)) =
       [log_cmd log_two_cfg ''guid-1'', log_cmd log_two_cfg ''guid-1'']
   \<and> opt_log log_production_cfg = LogGuid ''guid-1'' \<and> \<not> opt_yes log_production_cfg
   \<and> \<not> confirmAnswer demo_ans
   \<and> emitted_cmds (effects (argv_handler log_production_cfg demo_ans)) = []
   \<and> exited (argv_handler log_production_cfg demo_ans) = Some 0"
  by code_simp

text \<open>
  Claim C9 as amended. With \<open>--log\<close> set to a command identifier (a string that is not
  empty), no listing query and no dispatch is made, by the callback or by any event after
  it, and every transport that the callback opens has a \<open>cmd\<close> object with the identifier
  as \<open>guid\<close>, no input token, offset \<open>0\<close> and \<open>commandAction\<close> \<open>logs\<close>. When no argument
  holds a line feed or a carriage return and the callback gets past the confirmation of
  claim C8 (the environment is not a production environment, or \<open>--yes\<close> is given, or the
  answer is yes), the callback opens exactly one such transport and a command is running
  when it returns. When the confirmation is declined, the process has exited with status
  \<open>0\<close> and no transport is opened.
\<close>

theorem log_replay_bypasses_dispatch:
  assumes "opt_log cfg = LogGuid g" and "g \<noteq> []"
  shows "listing_calls (effects (run cfg es (argv_handler cfg ans))) = []
       \<and> dispatch_calls (effects (run cfg es (argv_handler cfg ans))) = []
       \<and> list_all (\<lambda>d. d = log_cmd cfg g) (emitted_cmds (effects (argv_handler cfg ans)))
       \<and> (one_line (args cfg) \<and> (envType cfg = ''production'' \<longrightarrow> opt_yes cfg \<or> confirmAnswer ans) \<longrightarrow>
            emitted_cmds (effects (argv_handler cfg ans)) = [log_cmd cfg g]
            \<and> commandRunning (argv_handler cfg ans))
       \<and> (envType cfg = ''production'' \<and> \<not> opt_yes cfg \<and> \<not> confirmAnswer ans \<longrightarrow>
            emitted_cmds (effects (argv_handler cfg ans)) = []
            \<and> exited (argv_handler cfg ans) = Some 0)"
proof -
  from assms have tl: "truthy_log (opt_log cfg)" and nsub: "\<not> isSubShell cfg"
    and nlist: "opt_log cfg \<noteq> LogTrue" and lg: "log_guid (opt_log cfg) = g"
    by (simp_all add: isSubShell_def)
  let ?s1 = "emit (TrackEvent ''wpcli_command_execute'') init_state"
  let ?s2 = "welcome_or_confirm cfg ans ?s1"
  let ?text = "''wp '' @ join_space (args cfg) @ [CHR 0x0A]"
  let ?s3 = "emit (RlWrite ?text) (?s2\<lparr>muted := True\<rparr>)"
  let ?rs = "firstDispatch ans # laterDispatches ans"
  let ?d = "log_cmd cfg g"
  obtain ps s4 where b: "begin_lines cfg (written_lines ?text) ?s3 = (ps, s4)"
    by (cases "begin_lines cfg (written_lines ?text) ?s3") auto
  define s5 where "s5 = (if exited s4 \<noteq> None then s4 else s4\<lparr>muted := False\<rparr>)"
  have wc: "write_command cfg ans ?s2 = finish_lines cfg ps ?rs s5"
    using b by (simp add: write_command_def s5_def Let_def)
  have argv: "argv_handler cfg ans =
      (if exited ?s2 \<noteq> None then ?s2 else finish_lines cfg ps ?rs s5)"
    using nsub nlist wc by (simp add: argv_handler_def Let_def)
  have s2: "\<not> commandRunning ?s2 \<and> emitted_cmds (effects ?s2) = []
      \<and> dispatch_calls (effects ?s2) = [] \<and> listing_calls (effects ?s2) = []
      \<and> (exited ?s2 = (if envType cfg = ''production'' \<and> \<not> opt_yes cfg \<and> \<not> confirmAnswer ans
                         then Some 0 else None))"
    using nsub
    by (simp add: welcome_or_confirm_def emit_def process_exit_def init_state_def Let_def
          emitted_cmds_def dispatch_calls_def listing_calls_def)
  then have s3: "\<not> commandRunning ?s3 \<and> emitted_cmds (effects ?s3) = []
      \<and> dispatch_calls (effects ?s3) = [] \<and> listing_calls (effects ?s3) = []
      \<and> exited ?s3 = exited ?s2"
    by (simp add: emit_def emitted_cmds_def dispatch_calls_def listing_calls_def)
  from log_begin_lines [OF tl b] s3
  have s4: "listing_calls (effects s4) = [] \<and> dispatch_calls (effects s4) = []
      \<and> emitted_cmds (effects s4) = [] \<and> (ps \<noteq> [] \<longrightarrow> commandAction s4 = Some ''logs'')"
    by simp
  then have s5: "listing_calls (effects s5) = [] \<and> dispatch_calls (effects s5) = []
      \<and> emitted_cmds (effects s5) = [] \<and> (commandAction s5 = Some ''logs'' \<or> ps = [])
      \<and> exited s5 = exited s4"
    by (auto simp: s5_def)
  then have act: "commandAction s5 = Some ''logs'' \<or> ps = []" by simp
  note fin = log_finish_lines [OF tl act, of ?rs, unfolded lg]
  have start: "listing_calls (effects (argv_handler cfg ans)) = []
      \<and> dispatch_calls (effects (argv_handler cfg ans)) = []"
    unfolding argv using s2 s5 fin by simp
  have quiet: "listing_calls (effects (run cfg es (argv_handler cfg ans))) = []
      \<and> dispatch_calls (effects (run cfg es (argv_handler cfg ans))) = []"
    using start run_no_listing [of cfg es "argv_handler cfg ans"]
      run_log_no_dispatch [OF tl, of es "argv_handler cfg ans"] by simp
  have every: "list_all (\<lambda>d. d = ?d) (emitted_cmds (effects (argv_handler cfg ans)))"
    unfolding argv using s2 s5 fin by (simp add: list_all_iff)
  have passed: "emitted_cmds (effects (argv_handler cfg ans)) = [?d]
            \<and> commandRunning (argv_handler cfg ans)"
    if "one_line (args cfg) \<and> (envType cfg = ''production'' \<longrightarrow> opt_yes cfg \<or> confirmAnswer ans)"
  proof -
    from that s2 have alive2: "exited ?s2 = None" by auto
    with s3 have "\<not> commandRunning ?s3" "exited ?s3 = None" by simp_all
    from log_single_line [OF tl this, of "join_space (args cfg)"]
    obtain t where t: "begin_lines cfg [''wp '' @ join_space (args cfg)] ?s3 =
        ([''wp '' @ join_space (args cfg)], t)" "exited t = None"
      by blast
    from that have "written_lines ?text = [''wp '' @ join_space (args cfg)]"
      by (simp only: written_one_line)
    with b have "begin_lines cfg [''wp '' @ join_space (args cfg)] ?s3 = (ps, s4)"
      by (simp only:)
    with t have "ps = [''wp '' @ join_space (args cfg)] \<and> exited s4 = None"
      by simp
    with s5 have "ps \<noteq> [] \<and> length ps = 1 \<and> exited s5 = None" by simp
    then show ?thesis unfolding argv using alive2 s5 fin by simp
  qed
  have declined: "emitted_cmds (effects (argv_handler cfg ans)) = []
            \<and> exited (argv_handler cfg ans) = Some 0"
    if "envType cfg = ''production'' \<and> \<not> opt_yes cfg \<and> \<not> confirmAnswer ans"
  proof -
    from that s2 have "exited ?s2 = Some 0" by simp
    then show ?thesis unfolding argv using s2 by simp
  qed
  from quiet every passed declined show ?thesis by blast
qed

theorem log_replay_bypasses_dispatch_witness:
  "opt_log log_cfg = LogGuid ''guid-1'' \<and> ''guid-1'' \<noteq> []
   \<and> one_line (args log_cfg) \<and> envType log_cfg \<noteq> ''production''
   \<and> listing_calls (effects (run log_cfg [StdoutData 1 ''abc'', StdoutEnd 1] (argv_handler log_cfg demo_ans))) = []
   \<and> dispatch_calls (effects (run log_cfg [StdoutData 1 ''abc'', StdoutEnd 1] (argv_handler log_cfg demo_ans))) = []
   \<and> emitted_cmds (effects (argv_handler log_cfg demo_ans)) =
       [\<lparr>cmd_guid = ''guid-1'', cmd_inputToken = None, cmd_columns = 80, cmd_rows = 24,
         cmd_offset = 0, cmd_commandAction = Some ''logs''\<rparr>]
   \<and> commandRunning (argv_handler log_cfg demo_ans)"
proof -
  have h: "opt_log log_cfg = LogGuid ''guid-1''" "''guid-1'' \<noteq> []" by code_simp+
  have p: "envType log_cfg \<noteq> ''production''" by code_simp
  have o: "one_line (args log_cfg)" by code_simp
  have t: "log_cmd log_cfg ''guid-1'' =
       \<lparr>cmd_guid = ''guid-1'', cmd_inputToken = None, cmd_columns = 80, cmd_rows = 24,
         cmd_offset = 0, cmd_commandAction = Some ''logs''\<rparr>" by code_simp
  from log_replay_bypasses_dispatch [OF h, of "[StdoutData 1 ''abc'', StdoutEnd 1]" demo_ans] p o t
  show ?thesis using h by simp
qed

text \<open>
  Claim C10. With \<open>--log\<close> alone, the query having answered a list of environments that
  is not empty, and the identifier of the target environment being truthy (not \<open>0\<close>):
  \<open>find\<close> answers the first environment of the list, whatever its identifier and
  whatever the target, after overwriting its \<open>id\<close> with the target's; the commands
  printed are those of that first environment, and the process exits with status \<open>0\<close>.
\<close>

theorem listing_takes_first_environment:
  assumes "opt_log cfg = LogTrue" and "commandsAnswer ans = Inr (e # es)" and "envId cfg \<noteq> 0"
  shows "find_assign (envId cfg) (e # es) = (Some (e\<lparr>e_id := envId cfg\<rparr>), e\<lparr>e_id := envId cfg\<rparr> # es)
       \<and> effects (argv_handler cfg ans) =
           [QueryCommands (appId cfg)]
           @ map (\<lambda>c. ConsoleLog [c_startedAt c, c_command c, c_guid c]) (e_commands e)
           @ [Exit 0]
       \<and> exited (argv_handler cfg ans) = Some 0"
  using assms
  by (simp add: argv_handler_def list_commands_def emit_def process_exit_def init_state_def
        foldl_emit Let_def)

theorem listing_takes_first_environment_witness:
  "opt_log listing_cfg = LogTrue \<and> envId listing_cfg = 20 \<and> envId listing_cfg \<noteq> 0
   \<and> map e_id (projr (commandsAnswer listing_ans)) = [10, 20]
   \<and> effects (argv_handler listing_cfg listing_ans) =
       [QueryCommands 1, ConsoleLog [''2020-01-01'', ''cache flush'', ''guid-p''], Exit 0]
   \<and> map e_id (snd (find_assign (envId listing_cfg) (projr (commandsAnswer listing_ans)))) = [20, 20]"
proof -
  let ?e = "\<lparr>e_id = 10, e_name = ''production'',
       e_commands = [\<lparr>c_guid = ''guid-p'', c_command = ''cache flush'', c_startedAt = ''2020-01-01''\<rparr>]\<rparr>"
  let ?es = "[\<lparr>e_id = 20, e_name = ''develop'',
       e_commands = [\<lparr>c_guid = ''guid-d'', c_command = ''plugin list'', c_startedAt = ''2020-01-02''\<rparr>]\<rparr>]"
  have h: "opt_log listing_cfg = LogTrue" "commandsAnswer listing_ans = Inr (?e # ?es)"
    "envId listing_cfg \<noteq> 0"
    by code_simp+
  have v: "envId listing_cfg = 20 \<and> appId listing_cfg = 1" by code_simp
  from listing_takes_first_environment [OF h] v h(2)
  show ?thesis using h(1,3) by simp
qed

end
